theory Spec2Isabelle
  imports Main
begin

section \<open>JavaScript values the code relies on\<close>

text \<open>
  Strings are lists of characters. A value of type \<open>string | undefined\<close> is a
  \<open>string option\<close>; such a value is truthy when it is a non-empty string (the tests
  \<^verbatim>\<open>if (attr.Value)\<close>, \<^verbatim>\<open>!req.AuthParameters.REFRESH_TOKEN\<close>, \<^verbatim>\<open>!functionName\<close>).
\<close>

definition truthy :: "string option \<Rightarrow> bool" where
  "truthy v = (case v of None \<Rightarrow> False | Some s \<Rightarrow> s \<noteq> [])"

text \<open>\<^verbatim>\<open>xs ?? []\<close> on an optional list.\<close>

definition orEmpty :: "'a list option \<Rightarrow> 'a list" where
  "orEmpty xs = (case xs of None \<Rightarrow> [] | Some ys \<Rightarrow> ys)"

subsection \<open>Plain objects used as records\<close>

text \<open>
  A plain object with string keys is the list of its own enumerable properties in the
  order in which \<^verbatim>\<open>Object.entries\<close>, \<^verbatim>\<open>Object.values\<close>, the spread \<^verbatim>\<open>{...acc}\<close> and
  \<^verbatim>\<open>JSON.stringify\<close> visit them: the keys that are array indices (canonical decimal
  numerals below \<open>2^32 - 1\<close>) in ascending numeric order first, then every other key in
  the order of its creation. Keys are pairwise distinct.
\<close>

type_synonym 'v jsObject = "(string \<times> 'v) list"

definition isDigit :: "char \<Rightarrow> bool" where
  "isDigit c = (48 \<le> (of_char c :: int) \<and> (of_char c :: int) \<le> 57)"

definition digitsValue :: "string \<Rightarrow> int" where
  "digitsValue s = foldl (\<lambda>n c. 10 * n + ((of_char c :: int) - 48)) 0 s"

definition isArrayIndex :: "string \<Rightarrow> bool" where
  "isArrayIndex s =
     (s \<noteq> [] \<and> list_all isDigit s \<and> (if hd s = CHR ''0'' then s = ''0'' else True)
      \<and> digitsValue s < 4294967295)"

definition hasOwnProperty :: "string \<Rightarrow> 'v jsObject \<Rightarrow> bool" where
  "hasOwnProperty k obj = (k \<in> set (map fst obj))"

definition replaceValue :: "string \<Rightarrow> 'v \<Rightarrow> 'v jsObject \<Rightarrow> 'v jsObject" where
  "replaceValue k v obj = map (\<lambda>(k', v'). if k' = k then (k', v) else (k', v')) obj"

fun insertIndexKey :: "string \<Rightarrow> 'v \<Rightarrow> 'v jsObject \<Rightarrow> 'v jsObject" where
  "insertIndexKey k v [] = [(k, v)]"
| "insertIndexKey k v ((k', v') # rest) =
     (if isArrayIndex k' \<and> digitsValue k' < digitsValue k
      then (k', v') # insertIndexKey k v rest
      else (k, v) # (k', v') # rest)"

text \<open>A property that the object does not own yet takes its place in the enumeration.\<close>

definition addProperty :: "string \<Rightarrow> 'v \<Rightarrow> 'v jsObject \<Rightarrow> 'v jsObject" where
  "addProperty k v obj = (if isArrayIndex k then insertIndexKey k v obj else obj @ [(k, v)])"

text \<open>
  \<^verbatim>\<open>{ ...acc, [k]: v }\<close>: a computed key of an object literal defines an own property,
  whatever the key.
\<close>

definition defineProperty :: "string \<Rightarrow> 'v \<Rightarrow> 'v jsObject \<Rightarrow> 'v jsObject" where
  "defineProperty k v obj =
     (if hasOwnProperty k obj then replaceValue k v obj else addProperty k v obj)"

text \<open>
  A list of properties in the order of their creation stands for the object that
  creating them one after the other yields: \<open>ownEntries\<close> is what \<^verbatim>\<open>Object.entries\<close> lists
  for it, \<open>Object_values\<close> what \<^verbatim>\<open>Object.values\<close> lists.
\<close>

definition ownEntries :: "'v jsObject \<Rightarrow> 'v jsObject" where
  "ownEntries created = foldl (\<lambda>obj (k, v). defineProperty k v obj) [] created"

definition Object_values :: "'v jsObject \<Rightarrow> 'v list" where
  "Object_values created = map snd (ownEntries created)"

text \<open>
  \<^verbatim>\<open>obj[k] = v\<close> with a string \<open>v\<close>: an own property is overwritten in place; otherwise the
  assignment creates the property, except for the key \<^verbatim>\<open>__proto__\<close>, which reaches the
  setter inherited from \<^verbatim>\<open>Object.prototype\<close>, and that setter ignores a string.
\<close>

definition assignProperty :: "string \<Rightarrow> 'v \<Rightarrow> 'v jsObject \<Rightarrow> 'v jsObject" where
  "assignProperty k v obj =
     (if hasOwnProperty k obj then replaceValue k v obj
      else if k = ''__proto__'' then obj
      else addProperty k v obj)"

definition deleteProperty :: "string \<Rightarrow> 'v jsObject \<Rightarrow> 'v jsObject" where
  "deleteProperty k obj = filter (\<lambda>(k', v'). k' \<noteq> k) obj"

section \<open>JSON text\<close>

text \<open>
  The values \<^verbatim>\<open>JSON.stringify\<close> is applied to and \<^verbatim>\<open>JSON.parse\<close> returns. A number is
  carried as its decimal text; an object is a plain object as above.
\<close>

datatype jsValue =
    JUndefined
  | JNull
  | JBool bool
  | JNum string
  | JStr string
  | JArr "jsValue list"
  | JObj "(string \<times> jsValue) list"

definition hexDigit :: "nat \<Rightarrow> char" where
  "hexDigit d = ''0123456789abcdef'' ! (d mod 16)"

text \<open>One character of a string inside its quotes (QuoteJSONString).\<close>

definition escapeChar :: "char \<Rightarrow> string" where
  "escapeChar c =
     (if c = CHR 0x22 then [CHR 0x5C, CHR 0x22]
      else if c = CHR 0x5C then [CHR 0x5C, CHR 0x5C]
      else if c = CHR 0x08 then [CHR 0x5C, CHR ''b'']
      else if c = CHR 0x0C then [CHR 0x5C, CHR ''f'']
      else if c = CHR 0x0A then [CHR 0x5C, CHR ''n'']
      else if c = CHR 0x0D then [CHR 0x5C, CHR ''r'']
      else if c = CHR 0x09 then [CHR 0x5C, CHR ''t'']
      else if (of_char c :: nat) < 32
      then [CHR 0x5C, CHR ''u'', CHR ''0'', CHR ''0'',
            hexDigit ((of_char c :: nat) div 16), hexDigit (of_char c :: nat)]
      else [c])"

definition quoteJSONString :: "string \<Rightarrow> string" where
  "quoteJSONString s = [CHR 0x22] @ concat (map escapeChar s) @ [CHR 0x22]"

fun commaJoin :: "string list \<Rightarrow> string" where
  "commaJoin [] = []"
| "commaJoin [x] = x"
| "commaJoin (x # y # rest) = x @ '','' @ commaJoin (y # rest)"

text \<open>
  \<^verbatim>\<open>JSON.stringify(v)\<close> for an array or an object \<open>v\<close>, and the text of a value inside
  one. An undefined element of an array is written \<^verbatim>\<open>null\<close>; a property whose value is
  undefined is left out.
\<close>

fun serialize :: "jsValue \<Rightarrow> string"
  and serializeElements :: "jsValue list \<Rightarrow> string list"
  and serializeProperties :: "(string \<times> jsValue) list \<Rightarrow> string list" where
  "serialize JUndefined = ''null''"
| "serialize JNull = ''null''"
| "serialize (JBool b) = (if b then ''true'' else ''false'')"
| "serialize (JNum n) = n"
| "serialize (JStr s) = quoteJSONString s"
| "serialize (JArr xs) = ''['' @ commaJoin (serializeElements xs) @ '']''"
| "serialize (JObj ps) = ''{'' @ commaJoin (serializeProperties ps) @ ''}''"
| "serializeElements [] = []"
| "serializeElements (x # xs) = serialize x # serializeElements xs"
| "serializeProperties [] = []"
| "serializeProperties ((k, v) # ps) =
     (if v = JUndefined then serializeProperties ps
      else (quoteJSONString k @ '':'' @ serialize v) # serializeProperties ps)"

text \<open>A \<^verbatim>\<open>Record<string, string>\<close> whose values may be undefined, as a value.\<close>

definition recordValue :: "string option jsObject \<Rightarrow> jsValue" where
  "recordValue obj = JObj (map (\<lambda>(k, v). (k, case v of None \<Rightarrow> JUndefined | Some s \<Rightarrow> JStr s)) obj)"

text \<open>A value interpolated into a template literal.\<close>

definition templateString :: "string option \<Rightarrow> string" where
  "templateString v = (case v of None \<Rightarrow> ''undefined'' | Some s \<Rightarrow> s)"

section \<open>User attributes (services/userPoolService.ts)\<close>

record attributeType =
  Name :: string
  Value :: "string option"

definition attribute :: "string \<Rightarrow> string option \<Rightarrow> attributeType" where
  "attribute name v = \<lparr>Name = name, Value = v\<rparr>"

definition attributesIncludeMatch ::
  "string \<Rightarrow> string \<Rightarrow> attributeType list option \<Rightarrow> bool" where
  "attributesIncludeMatch attributeName attributeVal attributes =
     (find (\<lambda>x. Name x = attributeName \<and> Value x = Some attributeVal) (orEmpty attributes)
        \<noteq> None)"

definition attributesInclude :: "string \<Rightarrow> attributeType list option \<Rightarrow> bool" where
  "attributesInclude attributeName attributes =
     (find (\<lambda>x. Name x = attributeName) (orEmpty attributes) \<noteq> None)"

definition attributeValue :: "string option \<Rightarrow> attributeType list option \<Rightarrow> string option" where
  "attributeValue attributeName attributes =
     (case find (\<lambda>x. Some (Name x) = attributeName) (orEmpty attributes) of
        None \<Rightarrow> None
      | Some x \<Rightarrow> Value x)"

definition attributesToRecord :: "attributeType list option \<Rightarrow> string option jsObject" where
  "attributesToRecord attributes =
     foldl (\<lambda>acc attr. defineProperty (Name attr) (Value attr) acc) [] (orEmpty attributes)"

definition attributesFromRecord :: "string option jsObject \<Rightarrow> attributeType list" where
  "attributesFromRecord attributes = map (\<lambda>(n, v). \<lparr>Name = n, Value = v\<rparr>) attributes"

text \<open>One turn of the loop of \<^verbatim>\<open>attributesAppend\<close>.\<close>

definition appendOne :: "string option jsObject \<Rightarrow> attributeType \<Rightarrow> string option jsObject" where
  "appendOne attributeSet attr =
     (if truthy (Value attr) then assignProperty (Name attr) (Value attr) attributeSet
      else deleteProperty (Name attr) attributeSet)"

definition attributesAppend ::
  "attributeType list option \<Rightarrow> attributeType list \<Rightarrow> attributeType list" where
  "attributesAppend attributes toAppend =
     attributesFromRecord (foldl appendOne (attributesToRecord attributes) toAppend)"


text \<open>
  A name on which a plain object behaves as an insertion-ordered dictionary: neither an
  array index nor \<^verbatim>\<open>__proto__\<close>.
\<close>

definition plainName :: "string \<Rightarrow> bool" where
  "plainName k = (\<not> isArrayIndex k \<and> k \<noteq> ''__proto__'')"

section \<open>Errors (errors.ts)\<close>

text \<open>
  Every \<^verbatim>\<open>throw\<close> of the source is a value \<open>Inl e\<close> of the result. The error classes
  carry the message the source passes to the constructor, where it passes one.
\<close>

datatype error =
    InvalidParameterError string
  | InvalidPasswordError
  | NotAuthorizedError
  | PasswordResetRequiredError
  | UnsupportedError string
  | ResourceNotFoundError "string option"
  | UserNotFoundError string
  | UnexpectedLambdaExceptionError
  | InvalidLambdaResponseError
  | UserLambdaValidationError "string option"
  | JsError string

definition isInvalidParameterError :: "error \<Rightarrow> bool" where
  "isInvalidParameterError e = (case e of InvalidParameterError msg \<Rightarrow> True | _ \<Rightarrow> False)"


section \<open>Users and user pools (services/userPoolService.ts)\<close>

type_synonym date = int

datatype userStatus =
  UNCONFIRMED | CONFIRMED | ARCHIVED | COMPROMISED | UNKNOWN | RESET_REQUIRED | FORCE_CHANGE_PASSWORD

record mfaOptionType =
  DeliveryMedium :: "string option"
  AttributeName :: "string option"

text \<open>
  \<open>RefreshTokens\<close> is declared \<^verbatim>\<open>string[]\<close>, but the code tests \<^verbatim>\<open>Array.isArray\<close> before
  every use: \<open>None\<close> is a value that is not an array.
\<close>

record user =
  Username :: string
  UserCreateDate :: date
  UserLastModifiedDate :: date
  Enabled :: bool
  UserStatus :: userStatus
  Attributes :: "attributeType list"
  MFAOptions :: "mfaOptionType list option"
  Password :: string
  AttributeVerificationCode :: "string option"
  ConfirmationCode :: "string option"
  MFACode :: "string option"
  RefreshTokens :: "string list option"

datatype mfaConfiguration = OFF | ON | OPTIONAL

text \<open>An entry of the pool's schema; \<open>SchemaName\<close> is its field \<^verbatim>\<open>Name\<close>.\<close>

record schemaAttributeType =
  SchemaName :: "string option"
  Mutable :: "bool option"

text \<open>The pool's configuration (\<^verbatim>\<open>UserPool\<close>); \<open>PoolId\<close> is its field \<^verbatim>\<open>Id\<close>.\<close>

record userPool =
  PoolId :: string
  PoolName :: "string option"
  UsernameAttributes :: "string list option"
  AutoVerifiedAttributes :: "string list option"
  MfaConfiguration :: "mfaConfiguration option"
  SchemaAttributes :: "schemaAttributeType list option"
  SmsVerificationMessage :: "string option"
  CreationDate :: "date option"
  LastModifiedDate :: "date option"

subsection \<open>The pool's data store\<close>

text \<open>
  Modelled from the spec: the DataStore, of which the sources hold only the interface of
  the factory. The spec gives it \<open>get\<close>, which returns the value at a path or null, and \<open>set\<close>, which
  writes the value at a path, and says that the Users collection is scanned in insertion
  order. The collection of a pool, at the path \<^verbatim>\<open>Users\<close>, is the list of its entries in
  that order, keyed by user name: \<open>set\<close> replaces the entry of a key where it stands and
  puts a new key last. The service receives the collection as a plain object
  (\<^verbatim>\<open>Record<string, User>\<close>) whose properties were created in that order.
\<close>

type_synonym users = "(string \<times> user) list"

definition dataStore_get :: "users \<Rightarrow> string \<Rightarrow> user option" where
  "dataStore_get us key = map_of us key"

definition dataStore_set :: "users \<Rightarrow> string \<Rightarrow> user \<Rightarrow> users" where
  "dataStore_set us key v =
     (if hasOwnProperty key us then replaceValue key v us else us @ [(key, v)])"

subsection \<open>UserPoolServiceImpl\<close>

text \<open>The loop of \<^verbatim>\<open>getUserByUsername\<close> over \<^verbatim>\<open>Object.values(users)\<close>.\<close>

fun scanUsers :: "bool \<Rightarrow> bool \<Rightarrow> string \<Rightarrow> user list \<Rightarrow> user option" where
  "scanUsers aliasEmailEnabled aliasPhoneNumberEnabled username [] = None"
| "scanUsers aliasEmailEnabled aliasPhoneNumberEnabled username (u # rest) =
     (if attributesIncludeMatch ''sub'' username (Some (Attributes u)) then Some u
      else if aliasEmailEnabled \<and> attributesIncludeMatch ''email'' username (Some (Attributes u))
      then Some u
      else if aliasPhoneNumberEnabled
              \<and> attributesIncludeMatch ''phone_number'' username (Some (Attributes u))
      then Some u
      else scanUsers aliasEmailEnabled aliasPhoneNumberEnabled username rest)"

text \<open>\<^verbatim>\<open>this.config.UsernameAttributes?.includes(name)\<close>, as a condition.\<close>

definition aliasEnabled :: "userPool \<Rightarrow> string \<Rightarrow> bool" where
  "aliasEnabled config name =
     (case UsernameAttributes config of None \<Rightarrow> False | Some names \<Rightarrow> name \<in> set names)"

definition getUserByUsername :: "userPool \<Rightarrow> users \<Rightarrow> string \<Rightarrow> user option" where
  "getUserByUsername config us username =
     (let aliasEmailEnabled = aliasEnabled config ''email'';
          aliasPhoneNumberEnabled = aliasEnabled config ''phone_number''
      in case dataStore_get us username of
           Some userByUsername \<Rightarrow> Some userByUsername
         | None \<Rightarrow>
             scanUsers aliasEmailEnabled aliasPhoneNumberEnabled username (Object_values us))"

definition listUsers :: "users \<Rightarrow> user list" where
  "listUsers us = Object_values us"

text \<open>\<^verbatim>\<open>Array.isArray(user.RefreshTokens) && user.RefreshTokens.includes(refreshToken)\<close>\<close>

definition holdsRefreshToken :: "string \<Rightarrow> user \<Rightarrow> bool" where
  "holdsRefreshToken refreshToken u =
     (case RefreshTokens u of None \<Rightarrow> False | Some tokens \<Rightarrow> refreshToken \<in> set tokens)"

definition getUserByRefreshToken :: "users \<Rightarrow> string \<Rightarrow> user option" where
  "getUserByRefreshToken us refreshToken = find (holdsRefreshToken refreshToken) (listUsers us)"

definition saveUser :: "user \<Rightarrow> users \<Rightarrow> users" where
  "saveUser u us = dataStore_set us (Username u) u"

definition storeRefreshToken :: "string \<Rightarrow> user \<Rightarrow> users \<Rightarrow> users" where
  "storeRefreshToken refreshToken u us =
     (let refreshTokens = (case RefreshTokens u of Some tokens \<Rightarrow> tokens | None \<Rightarrow> [])
                          @ [refreshToken]
      in saveUser (u\<lparr>RefreshTokens := Some refreshTokens\<rparr>) us)"

subsection \<open>validatePermittedAttributeChanges\<close>

text \<open>The loop over the request's attributes: the first failure, if any.\<close>

fun checkAgainstSchema :: "attributeType list \<Rightarrow> schemaAttributeType list \<Rightarrow> error option" where
  "checkAgainstSchema [] schemaAttributes = None"
| "checkAgainstSchema (attr # rest) schemaAttributes =
     (case find (\<lambda>x. SchemaName x = Some (Name attr)) schemaAttributes of
        None \<Rightarrow> Some (InvalidParameterError
                 (''user.'' @ Name attr @ '': Attribute does not exist in the schema.''))
      | Some attrSchema \<Rightarrow>
          if Mutable attrSchema = Some True then checkAgainstSchema rest schemaAttributes
          else Some (InvalidParameterError
                 (''user.'' @ Name attr
                    @ '': Attribute cannot be updated. (changing an immutable attribute)'')))"

definition validatePermittedAttributeChanges ::
  "attributeType list \<Rightarrow> schemaAttributeType list \<Rightarrow> error + attributeType list" where
  "validatePermittedAttributeChanges requestAttributes schemaAttributes =
     (case checkAgainstSchema requestAttributes schemaAttributes of
        Some e \<Rightarrow> Inl e
      | None \<Rightarrow>
          if attributesInclude ''email_verified'' (Some requestAttributes)
             \<and> \<not> attributesInclude ''email'' (Some requestAttributes)
          then Inl (InvalidParameterError ''Email is required to verify/un-verify an email'')
          else if attributesInclude ''phone_number_verified'' (Some requestAttributes)
             \<and> \<not> attributesInclude ''phone_number'' (Some requestAttributes)
          then Inl (InvalidParameterError
                 ''Phone Number is required to verify/un-verify a phone number'')
          else Inr requestAttributes)"

text \<open>
  The test of the loop, as a condition on the request: for every requested attribute the
  first schema entry of the same Name exists and is Mutable.
\<close>

definition firstEntryMutable :: "attributeType list \<Rightarrow> schemaAttributeType list \<Rightarrow> bool" where
  "firstEntryMutable requestAttributes schemaAttributes =
     list_all (\<lambda>a. case find (\<lambda>s. SchemaName s = Some (Name a)) schemaAttributes of
                      None \<Rightarrow> False
                    | Some s \<Rightarrow> Mutable s = Some True)
       requestAttributes"

text \<open>
  The two closing tests of \<^verbatim>\<open>validatePermittedAttributeChanges\<close>: a verification flag
  without the attribute it verifies.
\<close>

definition verifiedWithoutContact :: "attributeType list \<Rightarrow> bool" where
  "verifiedWithoutContact requestAttributes =
     ((attributesInclude ''email_verified'' (Some requestAttributes)
         \<and> \<not> attributesInclude ''email'' (Some requestAttributes))
      \<or> (attributesInclude ''phone_number_verified'' (Some requestAttributes)
           \<and> \<not> attributesInclude ''phone_number'' (Some requestAttributes)))"

subsection \<open>Conditions in the words of the specification\<close>

text \<open>
  The condition of the specification on a request: every requested attribute has a schema
  entry of the same Name that is Mutable.
\<close>

definition spec_permitted :: "attributeType list \<Rightarrow> schemaAttributeType list \<Rightarrow> bool" where
  "spec_permitted requestAttributes schemaAttributes =
     list_all (\<lambda>a. list_ex (\<lambda>s. SchemaName s = Some (Name a) \<and> Mutable s = Some True)
                      schemaAttributes)
       requestAttributes"


section \<open>The collaborators of the targets\<close>

text \<open>
  The targets receive their collaborators in \<^verbatim>\<open>services\<close>. The code of the token
  generator, the message service, the triggers, the registry of pools, the clock and the
  generators of codes and UUIDs is not among the sources verified here: each is a
  parameter, a function from the arguments of the call to its outcome, an error standing
  for a rejected promise. The logger of the context is left out: it has no part in any
  result.
\<close>

type_synonym clientMetadata = "(string \<times> string) list"

datatype triggerName =
  CustomMessage | PostAuthentication | PostConfirmation | PreSignUp | PreTokenGeneration
  | UserMigration

text \<open>The triple the token generator issues.\<close>

record tokens =
  IssuedAccessToken :: string
  IssuedIdToken :: string
  IssuedRefreshToken :: string

text \<open>The arguments of the calls; the prefix of a field names the call it belongs to.\<close>

record userMigrationArgs =
  um_clientId :: string
  um_password :: "string option"
  um_userAttributes :: "attributeType list"
  um_username :: string
  um_userPoolId :: string
  um_clientMetadata :: "clientMetadata option"
  um_validationData :: "clientMetadata option"

record postAuthenticationArgs =
  pa_clientId :: string
  pa_clientMetadata :: "clientMetadata option"
  pa_source :: string
  pa_userAttributes :: "attributeType list"
  pa_username :: string
  pa_userPoolId :: string

record generateArgs =
  gen_user :: user
  gen_clientId :: string
  gen_userPoolId :: string
  gen_clientMetadata :: "clientMetadata option"
  gen_source :: string

record deliveryDetails =
  DetailsDeliveryMedium :: "string option"
  DetailsAttributeName :: "string option"
  Destination :: string

record deliverArgs =
  dl_source :: string
  dl_clientId :: string
  dl_userPoolId :: string
  dl_user :: user
  dl_code :: string
  dl_clientMetadata :: "clientMetadata option"
  dl_deliveryDetails :: deliveryDetails

datatype call =
    UserMigrationCall userMigrationArgs
  | PostAuthenticationCall postAuthenticationArgs
  | GenerateCall generateArgs
  | DeliverCall deliverArgs


text \<open>
  \<open>getUserPool\<close> yields the configuration of the pool, null (\<open>None\<close>) or an error;
  \<open>otp\<close> and \<open>v4\<close> yield, for \<open>n\<close>, the value of their \<open>n\<close>-th call; \<open>userMigration\<close>
  may persist the user it returns, so it yields the Users collection as well.
\<close>

record services =
  getUserPool :: "string \<Rightarrow> error + userPool option"
  getUserPoolForClientId :: "string \<Rightarrow> error + userPool"
  clock_get :: date
  otp :: "nat \<Rightarrow> string"
  v4 :: "nat \<Rightarrow> string"
  enabled :: "triggerName \<Rightarrow> bool"
  userMigration :: "userMigrationArgs \<Rightarrow> users \<Rightarrow> (error + user option) \<times> users"
  postAuthentication :: "postAuthenticationArgs \<Rightarrow> error option"
  generate :: "generateArgs \<Rightarrow> error + tokens"
  deliver :: "deliverArgs \<Rightarrow> error option"

text \<open>
  The state a request runs in: the Users collection of the pool it addresses, the calls
  made to the collaborators so far, in order, and how many UUIDs and codes were drawn.
\<close>

record state =
  Users :: users
  calls :: "call list"
  uuidsDrawn :: nat
  otpsDrawn :: nat

section \<open>InitiateAuth (targets/initiateAuth.ts)\<close>

text \<open>
  \<open>AuthParameters\<close> is a map from strings to strings. The flows read three of its keys;
  \<open>PASSWORD\<close> and \<open>REFRESH_TOKEN\<close> may be missing. A request of the password flow
  without \<open>USERNAME\<close> is outside the model (what the store returns for a key that is not
  a string is not in the source).
\<close>

record authParameters =
  USERNAME :: string
  PASSWORD :: "string option"
  REFRESH_TOKEN :: "string option"

record initiateAuthRequest =
  ClientId :: string
  AuthFlow :: string
  AuthParameters :: "authParameters option"
  ClientMetadata :: "clientMetadata option"

record authenticationResultType =
  AccessToken :: "string option"
  ExpiresIn :: "int option"
  TokenType :: "string option"
  RefreshToken :: "string option"
  IdToken :: "string option"
  NewDeviceMetadata :: "jsValue option"

record initiateAuthResponse =
  ChallengeName :: "string option"
  Session :: "string option"
  ChallengeParameters :: "(string \<times> string) list option"
  AuthenticationResult :: "authenticationResultType option"

definition verifyMfaChallenge ::
  "services \<Rightarrow> user \<Rightarrow> initiateAuthRequest \<Rightarrow> userPool \<Rightarrow> state
     \<Rightarrow> (error + initiateAuthResponse) \<times> state" where
  "verifyMfaChallenge services u req config s =
     (if length (orEmpty (MFAOptions u)) = 0 then (Inl NotAuthorizedError, s)
      else
        case find (\<lambda>x. DeliveryMedium x = Some ''SMS'') (orEmpty (MFAOptions u)) of
          None \<Rightarrow> (Inl (UnsupportedError ''MFA challenge without SMS''), s)
        | Some smsMfaOption \<Rightarrow>
            (case attributeValue (AttributeName smsMfaOption) (Some (Attributes u)) of
               None \<Rightarrow>
                 (Inl (UnsupportedError
                    (''SMS_MFA without '' @ templateString (AttributeName smsMfaOption))), s)
             | Some deliveryDestination \<Rightarrow>
                 if deliveryDestination = [] then
                   (Inl (UnsupportedError
                      (''SMS_MFA without '' @ templateString (AttributeName smsMfaOption))), s)
                 else
                   let code = otp services (otpsDrawn s);
                       args = \<lparr>dl_source = ''Authentication'', dl_clientId = ClientId req,
                               dl_userPoolId = PoolId config, dl_user = u, dl_code = code,
                               dl_clientMetadata = ClientMetadata req,
                               dl_deliveryDetails =
                                 \<lparr>DetailsDeliveryMedium = DeliveryMedium smsMfaOption,
                                  DetailsAttributeName = AttributeName smsMfaOption,
                                  Destination = deliveryDestination\<rparr>\<rparr>;
                       s1 = s\<lparr>otpsDrawn := Suc (otpsDrawn s),
                               calls := calls s @ [DeliverCall args]\<rparr>
                   in case deliver services args of
                        Some e \<Rightarrow> (Inl e, s1)
                      | None \<Rightarrow>
                          (Inr \<lparr>ChallengeName = Some ''SMS_MFA'', Session = None,
                                ChallengeParameters =
                                  Some [(''CODE_DELIVERY_DELIVERY_MEDIUM'', ''SMS''),
                                        (''CODE_DELIVERY_DESTINATION'', deliveryDestination),
                                        (''USER_ID_FOR_SRP'', Username u)],
                                AuthenticationResult = None\<rparr>,
                           s1\<lparr>Users := saveUser (u\<lparr>MFACode := Some code\<rparr>) (Users s1)\<rparr>)))"

text \<open>The \<^verbatim>\<open>tokens\<close> object, as the \<^verbatim>\<open>AuthenticationResult\<close> of a response.\<close>

definition tokensResult :: "tokens \<Rightarrow> authenticationResultType" where
  "tokensResult t =
     \<lparr>AccessToken = Some (IssuedAccessToken t), ExpiresIn = None, TokenType = None,
      RefreshToken = Some (IssuedRefreshToken t), IdToken = Some (IssuedIdToken t),
      NewDeviceMetadata = None\<rparr>"

definition verifyPasswordChallenge ::
  "services \<Rightarrow> user \<Rightarrow> initiateAuthRequest \<Rightarrow> userPool \<Rightarrow> state
     \<Rightarrow> (error + initiateAuthResponse) \<times> state" where
  "verifyPasswordChallenge services u req config s =
     (let args = \<lparr>gen_user = u, gen_clientId = ClientId req, gen_userPoolId = PoolId config,
                  gen_clientMetadata = None, gen_source = ''Authentication''\<rparr>;
          s1 = s\<lparr>calls := calls s @ [GenerateCall args]\<rparr>
      in case generate services args of
           Inl e \<Rightarrow> (Inl e, s1)
         | Inr t \<Rightarrow>
             (Inr \<lparr>ChallengeName = Some ''PASSWORD_VERIFIER'', Session = None,
                   ChallengeParameters = Some [],
                   AuthenticationResult = Some (tokensResult t)\<rparr>,
              s1\<lparr>Users := storeRefreshToken (IssuedRefreshToken t) u (Users s1)\<rparr>))"

definition newPasswordChallenge :: "services \<Rightarrow> user \<Rightarrow> state \<Rightarrow> initiateAuthResponse \<times> state" where
  "newPasswordChallenge services u s =
     (\<lparr>ChallengeName = Some ''NEW_PASSWORD_REQUIRED'',
       Session = Some (v4 services (uuidsDrawn s)),
       ChallengeParameters =
         Some [(''USER_ID_FOR_SRP'', Username u),
               (''requiredAttributes'', serialize (JArr [])),
               (''userAttributes'',
                  serialize (recordValue (attributesToRecord (Some (Attributes u)))))],
       AuthenticationResult = None\<rparr>,
      s\<lparr>uuidsDrawn := Suc (uuidsDrawn s)\<rparr>)"

text \<open>
  The first statements of \<^verbatim>\<open>userPasswordAuthFlow\<close>: the user of that name, or, when there
  is none and the UserMigration trigger is enabled, what the trigger returns.
\<close>

definition resolveUser ::
  "services \<Rightarrow> initiateAuthRequest \<Rightarrow> authParameters \<Rightarrow> userPool \<Rightarrow> state
     \<Rightarrow> (error + user option) \<times> state" where
  "resolveUser services req ap config s =
     (case getUserByUsername config (Users s) (USERNAME ap) of
        Some u \<Rightarrow> (Inr (Some u), s)
      | None \<Rightarrow>
          if enabled services UserMigration then
            let args = \<lparr>um_clientId = ClientId req, um_password = PASSWORD ap,
                        um_userAttributes = [], um_username = USERNAME ap,
                        um_userPoolId = PoolId config, um_clientMetadata = None,
                        um_validationData = ClientMetadata req\<rparr>
            in case userMigration services args (Users s) of
                 (r, us) \<Rightarrow> (r, s\<lparr>Users := us, calls := calls s @ [UserMigrationCall args]\<rparr>)
          else (Inr None, s))"

text \<open>
  \<^verbatim>\<open>verifyPasswordChallenge\<close> is started without \<^verbatim>\<open>await\<close>: its promise is awaited only by
  the final \<^verbatim>\<open>return\<close>, after the PostAuthentication trigger. The token generator is
  called before the trigger is; a failure of the generator does not keep the trigger
  from being invoked, and a failure of the trigger is the failure of the flow. The model
  runs the started promise to its end before the trigger; neither uses what the other
  writes.
\<close>

definition userPasswordAuthFlow ::
  "services \<Rightarrow> initiateAuthRequest \<Rightarrow> userPool \<Rightarrow> state
     \<Rightarrow> (error + initiateAuthResponse) \<times> state" where
  "userPasswordAuthFlow services req config s =
     (case AuthParameters req of
        None \<Rightarrow> (Inl (InvalidParameterError ''Missing required parameter authParameters''), s)
      | Some ap \<Rightarrow>
          (case resolveUser services req ap config s of
             (Inl e, s1) \<Rightarrow> (Inl e, s1)
           | (Inr None, s1) \<Rightarrow> (Inl NotAuthorizedError, s1)
           | (Inr (Some u), s1) \<Rightarrow>
               if UserStatus u = RESET_REQUIRED then (Inl PasswordResetRequiredError, s1)
               else if UserStatus u = FORCE_CHANGE_PASSWORD then
                 (case newPasswordChallenge services u s1 of (r, s2) \<Rightarrow> (Inr r, s2))
               else if Some (Password u) \<noteq> PASSWORD ap then (Inl InvalidPasswordError, s1)
               else if (MfaConfiguration config = Some OPTIONAL
                          \<and> length (orEmpty (MFAOptions u)) > 0)
                       \<or> MfaConfiguration config = Some ON
               then verifyMfaChallenge services u req config s1
               else
                 (case verifyPasswordChallenge services u req config s1 of
                    (result, s2) \<Rightarrow>
                      if enabled services PostAuthentication then
                        let args = \<lparr>pa_clientId = ClientId req, pa_clientMetadata = None,
                                    pa_source = ''PostAuthentication_Authentication'',
                                    pa_userAttributes = Attributes u,
                                    pa_username = Username u,
                                    pa_userPoolId = PoolId config\<rparr>;
                            s3 = s2\<lparr>calls := calls s2 @ [PostAuthenticationCall args]\<rparr>
                        in case postAuthentication services args of
                             Some e \<Rightarrow> (Inl e, s3)
                           | None \<Rightarrow> (result, s3)
                      else (result, s2))))"

definition refreshTokenAuthFlow ::
  "services \<Rightarrow> initiateAuthRequest \<Rightarrow> state \<Rightarrow> (error + initiateAuthResponse) \<times> state" where
  "refreshTokenAuthFlow services req s =
     (case AuthParameters req of
        None \<Rightarrow> (Inl (InvalidParameterError ''Missing required parameter authParameters''), s)
      | Some ap \<Rightarrow>
          (case REFRESH_TOKEN ap of
             None \<Rightarrow> (Inl (InvalidParameterError ''AuthParameters REFRESH_TOKEN is required''), s)
           | Some refreshToken \<Rightarrow>
               if refreshToken = [] then
                 (Inl (InvalidParameterError ''AuthParameters REFRESH_TOKEN is required''), s)
               else
                 case getUserPoolForClientId services (ClientId req) of
                   Inl e \<Rightarrow> (Inl e, s)
                 | Inr config \<Rightarrow>
                     (case getUserByRefreshToken (Users s) refreshToken of
                        None \<Rightarrow> (Inl NotAuthorizedError, s)
                      | Some u \<Rightarrow>
                          let args = \<lparr>gen_user = u, gen_clientId = ClientId req,
                                      gen_userPoolId = PoolId config, gen_clientMetadata = None,
                                      gen_source = ''RefreshTokens''\<rparr>;
                              s1 = s\<lparr>calls := calls s @ [GenerateCall args]\<rparr>
                          in case generate services args of
                               Inl e \<Rightarrow> (Inl e, s1)
                             | Inr t \<Rightarrow>
                                 (Inr \<lparr>ChallengeName = None, Session = None,
                                       ChallengeParameters = None,
                                       AuthenticationResult =
                                         Some \<lparr>AccessToken = Some (IssuedAccessToken t),
                                               ExpiresIn = None, TokenType = None,
                                               RefreshToken = None,
                                               IdToken = Some (IssuedIdToken t),
                                               NewDeviceMetadata = None\<rparr>\<rparr>,
                                  s1))))"

text \<open>
  The state of \<open>InitiateAuth\<close> holds the Users collection of the pool the client id
  resolves to; the second resolution, inside the refresh flow, yields the same pool.
\<close>

definition InitiateAuth ::
  "services \<Rightarrow> initiateAuthRequest \<Rightarrow> state \<Rightarrow> (error + initiateAuthResponse) \<times> state" where
  "InitiateAuth services req s =
     (case getUserPoolForClientId services (ClientId req) of
        Inl e \<Rightarrow> (Inl e, s)
      | Inr config \<Rightarrow>
          if AuthFlow req = ''USER_PASSWORD_AUTH'' then userPasswordAuthFlow services req config s
          else if AuthFlow req = ''REFRESH_TOKEN'' \<or> AuthFlow req = ''REFRESH_TOKEN_AUTH''
          then refreshTokenAuthFlow services req s
          else (Inl (UnsupportedError (''InitAuth with AuthFlow='' @ AuthFlow req)), s))"

section \<open>Administrative targets\<close>

text \<open>
  The fields of a request are the arguments of its target, after the services and before
  the Users collection of the pool the request addresses.
\<close>




definition DescribeUserPool :: "services \<Rightarrow> string \<Rightarrow> error + userPool" where
  "DescribeUserPool services userPoolId =
     (case getUserPool services userPoolId of
        Inl e \<Rightarrow> Inl e
      | Inr None \<Rightarrow>
          Inl (ResourceNotFoundError (Some (''User pool '' @ userPoolId @ '' does not exist.'')))
      | Inr (Some config) \<Rightarrow>
          let now = clock_get services
          in Inr (config\<lparr>CreationDate := Some now, LastModifiedDate := Some now\<rparr>))"

section \<open>The Lambda service (services/lambda.ts)\<close>

datatype triggerSource =
    PostAuthentication_Authentication
  | PostConfirmation_ConfirmForgotPassword
  | PostConfirmation_ConfirmSignUp
  | PreSignUp_AdminCreateUser
  | PreSignUp_ExternalProvider
  | PreSignUp_SignUp
  | TokenGeneration_AuthenticateDevice
  | TokenGeneration_Authentication
  | TokenGeneration_HostedAuth
  | TokenGeneration_NewPasswordChallenge
  | TokenGeneration_RefreshTokens
  | UserMigration_Authentication
  | CustomMessage_SignUp
  | CustomMessage_AdminCreateUser
  | CustomMessage_ResendCode
  | CustomMessage_ForgotPassword
  | CustomMessage_UpdateUserAttribute
  | CustomMessage_VerifyUserAttribute
  | CustomMessage_Authentication

fun triggerSourceName :: "triggerSource \<Rightarrow> string" where
  "triggerSourceName PostAuthentication_Authentication = ''PostAuthentication_Authentication''"
| "triggerSourceName PostConfirmation_ConfirmForgotPassword =
     ''PostConfirmation_ConfirmForgotPassword''"
| "triggerSourceName PostConfirmation_ConfirmSignUp = ''PostConfirmation_ConfirmSignUp''"
| "triggerSourceName PreSignUp_AdminCreateUser = ''PreSignUp_AdminCreateUser''"
| "triggerSourceName PreSignUp_ExternalProvider = ''PreSignUp_ExternalProvider''"
| "triggerSourceName PreSignUp_SignUp = ''PreSignUp_SignUp''"
| "triggerSourceName TokenGeneration_AuthenticateDevice = ''TokenGeneration_AuthenticateDevice''"
| "triggerSourceName TokenGeneration_Authentication = ''TokenGeneration_Authentication''"
| "triggerSourceName TokenGeneration_HostedAuth = ''TokenGeneration_HostedAuth''"
| "triggerSourceName TokenGeneration_NewPasswordChallenge =
     ''TokenGeneration_NewPasswordChallenge''"
| "triggerSourceName TokenGeneration_RefreshTokens = ''TokenGeneration_RefreshTokens''"
| "triggerSourceName UserMigration_Authentication = ''UserMigration_Authentication''"
| "triggerSourceName CustomMessage_SignUp = ''CustomMessage_SignUp''"
| "triggerSourceName CustomMessage_AdminCreateUser = ''CustomMessage_AdminCreateUser''"
| "triggerSourceName CustomMessage_ResendCode = ''CustomMessage_ResendCode''"
| "triggerSourceName CustomMessage_ForgotPassword = ''CustomMessage_ForgotPassword''"
| "triggerSourceName CustomMessage_UpdateUserAttribute = ''CustomMessage_UpdateUserAttribute''"
| "triggerSourceName CustomMessage_VerifyUserAttribute = ''CustomMessage_VerifyUserAttribute''"
| "triggerSourceName CustomMessage_Authentication = ''CustomMessage_Authentication''"

fun triggerNameString :: "triggerName \<Rightarrow> string" where
  "triggerNameString CustomMessage = ''CustomMessage''"
| "triggerNameString PostAuthentication = ''PostAuthentication''"
| "triggerNameString PostConfirmation = ''PostConfirmation''"
| "triggerNameString PreSignUp = ''PreSignUp''"
| "triggerNameString PreTokenGeneration = ''PreTokenGeneration''"
| "triggerNameString UserMigration = ''UserMigration''"

text \<open>
  The event handed to \<^verbatim>\<open>invoke\<close>: the union of the six event interfaces. A field that
  the interface of the trigger source does not declare is never read for that source.
  The client id can be null.
\<close>

record triggerEvent =
  ev_triggerSource :: triggerSource
  ev_clientId :: "string option"
  ev_userAttributes :: "(string \<times> string) list"
  ev_username :: string
  ev_userPoolId :: string
  ev_clientMetadata :: "clientMetadata option"
  ev_validationData :: "clientMetadata option"
  ev_password :: "string option"
  ev_codeParameter :: "string option"
  ev_usernameParameter :: "string option"

definition stringRecord :: "(string \<times> string) list \<Rightarrow> jsValue" where
  "stringRecord r = JObj (map (\<lambda>(k, v). (k, JStr v)) r)"

definition optionalRecord :: "(string \<times> string) list option \<Rightarrow> jsValue" where
  "optionalRecord r = (case r of None \<Rightarrow> JUndefined | Some kvs \<Rightarrow> stringRecord kvs)"

definition optionalString :: "string option \<Rightarrow> jsValue" where
  "optionalString v = (case v of None \<Rightarrow> JUndefined | Some s \<Rightarrow> JStr s)"

text \<open>The request and the response of the envelope, by trigger source.\<close>

fun eventRequest :: "triggerSource \<Rightarrow> triggerEvent \<Rightarrow> jsValue" where
  "eventRequest PostAuthentication_Authentication ev =
     JObj [(''userAttributes'', stringRecord (ev_userAttributes ev)),
           (''clientMetadata'', optionalRecord (ev_clientMetadata ev)),
           (''newDeviceUsed'', JBool False)]"
| "eventRequest PostConfirmation_ConfirmForgotPassword ev =
     JObj [(''userAttributes'', stringRecord (ev_userAttributes ev)),
           (''clientMetadata'', optionalRecord (ev_clientMetadata ev))]"
| "eventRequest PostConfirmation_ConfirmSignUp ev =
     JObj [(''userAttributes'', stringRecord (ev_userAttributes ev)),
           (''clientMetadata'', optionalRecord (ev_clientMetadata ev))]"
| "eventRequest UserMigration_Authentication ev =
     JObj [(''clientMetadata'', optionalRecord (ev_clientMetadata ev)),
           (''password'', optionalString (ev_password ev)),
           (''validationData'', optionalRecord (ev_validationData ev))]"
| "eventRequest src ev =
     (if src \<in> {PreSignUp_AdminCreateUser, PreSignUp_ExternalProvider, PreSignUp_SignUp} then
        JObj [(''userAttributes'', stringRecord (ev_userAttributes ev)),
              (''clientMetadata'', optionalRecord (ev_clientMetadata ev)),
              (''validationData'', optionalRecord (ev_validationData ev))]
      else if src \<in> {TokenGeneration_AuthenticateDevice, TokenGeneration_Authentication,
                       TokenGeneration_HostedAuth, TokenGeneration_NewPasswordChallenge,
                       TokenGeneration_RefreshTokens} then
        JObj [(''userAttributes'', stringRecord (ev_userAttributes ev)),
              (''groupConfiguration'', JObj []),
              (''clientMetadata'', optionalRecord (ev_clientMetadata ev))]
      else
        JObj [(''clientMetadata'', optionalRecord (ev_clientMetadata ev)),
              (''codeParameter'', optionalString (ev_codeParameter ev)),
              (''usernameParameter'', optionalString (ev_usernameParameter ev)),
              (''userAttributes'', stringRecord (ev_userAttributes ev))])"

fun eventResponse :: "triggerSource \<Rightarrow> jsValue" where
  "eventResponse PostAuthentication_Authentication = JObj []"
| "eventResponse PostConfirmation_ConfirmForgotPassword = JObj []"
| "eventResponse PostConfirmation_ConfirmSignUp = JObj []"
| "eventResponse UserMigration_Authentication =
     JObj [(''desiredDeliveryMediums'', JArr []), (''finalUserStatus'', JUndefined),
           (''forceAliasCreation'', JUndefined), (''messageAction'', JUndefined),
           (''userAttributes'', JObj [])]"
| "eventResponse src =
     (if src \<in> {PreSignUp_AdminCreateUser, PreSignUp_ExternalProvider, PreSignUp_SignUp} then
        JObj [(''autoConfirmUser'', JBool False), (''autoVerifyEmail'', JBool False),
              (''autoVerifyPhone'', JBool False)]
      else if src \<in> {TokenGeneration_AuthenticateDevice, TokenGeneration_Authentication,
                       TokenGeneration_HostedAuth, TokenGeneration_NewPasswordChallenge,
                       TokenGeneration_RefreshTokens} then
        JObj [(''claimsOverrideDetails'', JObj [])]
      else
        JObj [(''smsMessage'', JStr []), (''emailMessage'', JStr []),
              (''emailSubject'', JStr [])])"

text \<open>
  \<^verbatim>\<open>createLambdaEvent\<close>. Every trigger source of the event types has its case, so the
  \<^verbatim>\<open>default\<close> branch, which throws, is never taken. The version of the SDK, read from its
  package file, is a parameter.
\<close>

definition createLambdaEvent :: "string \<Rightarrow> triggerEvent \<Rightarrow> jsValue" where
  "createLambdaEvent awsSdkVersion ev =
     JObj [(''version'', JStr ''0''),
           (''callerContext'',
              JObj [(''awsSdkVersion'', JStr awsSdkVersion),
                    (''clientId'', case ev_clientId ev of None \<Rightarrow> JNull | Some c \<Rightarrow> JStr c)]),
           (''region'', JStr ''local''),
           (''userPoolId'', JStr (ev_userPoolId ev)),
           (''triggerSource'', JStr (triggerSourceName (ev_triggerSource ev))),
           (''userName'', JStr (ev_username ev)),
           (''request'', eventRequest (ev_triggerSource ev) ev),
           (''response'', eventResponse (ev_triggerSource ev))]"

text \<open>What the Lambda client resolves with.\<close>

record invocationResponse =
  StatusCode :: "int option"
  FunctionError :: "string option"
  Payload :: "string option"

text \<open>
  The Lambda service holds the map from trigger names to function names, the Lambda
  client and the version of the SDK. The client is a parameter: from the function name,
  the invocation type and the payload to the response, or to the exception it rejects
  with. \<^verbatim>\<open>JSON.parse\<close> is a parameter as well: the value of a text, or \<open>None\<close> where it
  throws a SyntaxError.
\<close>

record lambdaService =
  functionConfig :: "triggerName \<Rightarrow> string option"
  lambdaClient_invoke :: "string \<Rightarrow> string \<Rightarrow> string \<Rightarrow> string + invocationResponse"
  awsSdkVersion :: string
  JSON_parse :: "string \<Rightarrow> jsValue option"

definition LambdaService_enabled :: "lambdaService \<Rightarrow> triggerName \<Rightarrow> bool" where
  "LambdaService_enabled service lambda = truthy (functionConfig service lambda)"

text \<open>
  \<^verbatim>\<open>parsedPayload.response\<close>: reading a property of null (or undefined) throws a
  TypeError (\<open>None\<close>); an object yields its own property or undefined; any other value
  has no such property.
\<close>

definition responseField :: "jsValue \<Rightarrow> jsValue option" where
  "responseField parsedPayload =
     (case parsedPayload of
        JNull \<Rightarrow> None
      | JUndefined \<Rightarrow> None
      | JObj props \<Rightarrow>
          Some (case map_of props ''response'' of None \<Rightarrow> JUndefined | Some v \<Rightarrow> v)
      | _ \<Rightarrow> Some JUndefined)"

definition LambdaService_invoke ::
  "lambdaService \<Rightarrow> triggerName \<Rightarrow> triggerEvent \<Rightarrow> error + jsValue" where
  "LambdaService_invoke service trigger ev =
     (case functionConfig service trigger of
        None \<Rightarrow> Inl (JsError (triggerNameString trigger @ '' trigger not configured''))
      | Some functionName \<Rightarrow>
          if functionName = [] then
            Inl (JsError (triggerNameString trigger @ '' trigger not configured''))
          else
            let lambdaEvent = createLambdaEvent (awsSdkVersion service) ev
            in case lambdaClient_invoke service functionName ''RequestResponse''
                      (serialize lambdaEvent) of
                 Inl ex \<Rightarrow> Inl UnexpectedLambdaExceptionError
               | Inr result \<Rightarrow>
                   if StatusCode result = Some 200 then
                     (case Payload result of
                        None \<Rightarrow> Inl InvalidLambdaResponseError
                      | Some payload \<Rightarrow>
                          (case JSON_parse service payload of
                             None \<Rightarrow> Inl InvalidLambdaResponseError
                           | Some parsedPayload \<Rightarrow>
                               (case responseField parsedPayload of
                                  None \<Rightarrow> Inl InvalidLambdaResponseError
                                | Some response \<Rightarrow> Inr response)))
                   else Inl (UserLambdaValidationError (FunctionError result)))"

section \<open>Sample data\<close>

text \<open>A pool with the email alias enabled and its users, for the concrete instances below.\<close>

definition alice :: user where
  "alice = \<lparr>Username = ''alice'', UserCreateDate = 1, UserLastModifiedDate = 1, Enabled = True,
     UserStatus = CONFIRMED,
     Attributes = [\<lparr>Name = ''sub'', Value = Some ''sub-a''\<rparr>,
                   \<lparr>Name = ''email'', Value = Some ''alice@example.com''\<rparr>,
                   \<lparr>Name = ''phone_number'', Value = Some ''+15550001''\<rparr>],
     MFAOptions = None, Password = ''pw-a'', AttributeVerificationCode = None,
     ConfirmationCode = None, MFACode = None, RefreshTokens = Some [''t1'']\<rparr>"

definition bob :: user where
  "bob = \<lparr>Username = ''bob'', UserCreateDate = 2, UserLastModifiedDate = 2, Enabled = True,
     UserStatus = CONFIRMED,
     Attributes = [\<lparr>Name = ''sub'', Value = Some ''sub-b''\<rparr>,
                   \<lparr>Name = ''email'', Value = Some ''bob@example.com''\<rparr>,
                   \<lparr>Name = ''phone_number'', Value = Some ''+15550002''\<rparr>],
     MFAOptions = Some [\<lparr>DeliveryMedium = Some ''SMS'', AttributeName = Some ''phone_number''\<rparr>],
     Password = ''pw-b'', AttributeVerificationCode = None,
     ConfirmationCode = None, MFACode = None, RefreshTokens = Some []\<rparr>"

definition samplePool :: userPool where
  "samplePool = \<lparr>PoolId = ''local_1'', PoolName = Some ''sample'',
     UsernameAttributes = Some [''email''], AutoVerifiedAttributes = None,
     MfaConfiguration = Some OPTIONAL,
     SchemaAttributes = Some [\<lparr>SchemaName = Some ''sub'', Mutable = Some False\<rparr>,
                              \<lparr>SchemaName = Some ''email'', Mutable = Some True\<rparr>,
                              \<lparr>SchemaName = Some ''email_verified'', Mutable = Some True\<rparr>],
     SmsVerificationMessage = None, CreationDate = Some 5, LastModifiedDate = Some 7\<rparr>"

definition carol :: user where
  "carol = alice\<lparr>Username := ''carol'', UserStatus := FORCE_CHANGE_PASSWORD,
     Attributes := [\<lparr>Name = ''sub'', Value = Some ''sub-c''\<rparr>,
                    \<lparr>Name = ''email'', Value = Some ''carol@example.com''\<rparr>],
     Password := ''pw-c'', RefreshTokens := Some []\<rparr>"

definition dave :: user where
  "dave = alice\<lparr>Username := ''dave'', UserStatus := RESET_REQUIRED,
     Attributes := [\<lparr>Name = ''sub'', Value = Some ''sub-d''\<rparr>],
     Password := ''pw-d'', RefreshTokens := Some []\<rparr>"


definition sampleUsers :: users where
  "sampleUsers = [(''alice'', alice), (''bob'', bob), (''carol'', carol), (''dave'', dave)]"

text \<open>
  Collaborators that succeed: the client \<^verbatim>\<open>client-1\<close> belongs to the sample pool, only
  the PostAuthentication trigger is enabled, the generator issues fixed tokens.
\<close>

definition sampleServices :: services where
  "sampleServices =
     \<lparr>getUserPool = (\<lambda>poolId. if poolId = ''local_1'' then Inr (Some samplePool) else Inr None),
      getUserPoolForClientId =
        (\<lambda>clientId. if clientId = ''client-1'' then Inr samplePool
                    else Inl (ResourceNotFoundError None)),
      clock_get = 42,
      otp = (\<lambda>n. ''1234''),
      v4 = (\<lambda>n. ''7d4d9f1e-0000-4000-8000-000000000000''),
      enabled = (\<lambda>t. t = PostAuthentication),
      userMigration = (\<lambda>args us. (Inr None, us)),
      postAuthentication = (\<lambda>args. None),
      generate = (\<lambda>args. Inr \<lparr>IssuedAccessToken = ''access-1'', IssuedIdToken = ''id-1'',
                                  IssuedRefreshToken = ''refresh-1''\<rparr>),
      deliver = (\<lambda>args. None)\<rparr>"

definition sampleState :: state where
  "sampleState = \<lparr>Users = sampleUsers, calls = [], uuidsDrawn = 0, otpsDrawn = 0\<rparr>"


definition refreshRequest :: "string option \<Rightarrow> initiateAuthRequest" where
  "refreshRequest token =
     \<lparr>ClientId = ''client-1'', AuthFlow = ''REFRESH_TOKEN_AUTH'',
      AuthParameters = Some \<lparr>USERNAME = [], PASSWORD = None, REFRESH_TOKEN = token\<rparr>,
      ClientMetadata = None\<rparr>"

text \<open>
  A Lambda service with four functions behind four triggers: one answers 200 with an
  object, one fails in transport, one answers 200 with a text that is not JSON, one
  answers 500. \<open>sampleParse\<close> is \<^verbatim>\<open>JSON.parse\<close> on the three payloads that occur.
\<close>

definition sampleParse :: "string \<Rightarrow> jsValue option" where
  "sampleParse text =
     (if text = ''{\"response\":{\"autoConfirmUser\":true}}''
      then Some (JObj [(''response'', JObj [(''autoConfirmUser'', JBool True)])])
      else if text = ''null'' then Some JNull
      else None)"

definition sampleLambda :: lambdaService where
  "sampleLambda =
     \<lparr>functionConfig =
        (\<lambda>t. case t of
                PreSignUp \<Rightarrow> Some ''ok-fn''
              | PostConfirmation \<Rightarrow> Some ''down-fn''
              | CustomMessage \<Rightarrow> Some ''text-fn''
              | UserMigration \<Rightarrow> Some ''error-fn''
              | PostAuthentication \<Rightarrow> Some ''null-fn''
              | PreTokenGeneration \<Rightarrow> None),
      lambdaClient_invoke =
        (\<lambda>functionName invocationType payload.
           if functionName = ''ok-fn'' then
             Inr \<lparr>StatusCode = Some 200, FunctionError = None,
                   Payload = Some ''{\"response\":{\"autoConfirmUser\":true}}''\<rparr>
           else if functionName = ''text-fn'' then
             Inr \<lparr>StatusCode = Some 200, FunctionError = None, Payload = Some ''oops''\<rparr>
           else if functionName = ''null-fn'' then
             Inr \<lparr>StatusCode = Some 200, FunctionError = None, Payload = Some ''null''\<rparr>
           else if functionName = ''error-fn'' then
             Inr \<lparr>StatusCode = Some 500, FunctionError = Some ''Unhandled'', Payload = None\<rparr>
           else Inl ''connect ECONNREFUSED''),
      awsSdkVersion = ''2.0.0'',
      JSON_parse = sampleParse\<rparr>"

definition sampleEvent :: "triggerSource \<Rightarrow> triggerEvent" where
  "sampleEvent src =
     \<lparr>ev_triggerSource = src, ev_clientId = Some ''client-1'',
      ev_userAttributes = [(''email'', ''alice@example.com'')], ev_username = ''alice'',
      ev_userPoolId = ''local_1'', ev_clientMetadata = None, ev_validationData = None,
      ev_password = None, ev_codeParameter = None, ev_usernameParameter = None\<rparr>"


section \<open>Properties\<close>

subsection \<open>Plain objects and attribute lists\<close>

lemma fst_replaceValue: "map fst (replaceValue k v obj) = map fst obj"
  by (induction obj) (auto simp: replaceValue_def)

lemma set_fst_insertIndexKey: "set (map fst (insertIndexKey k v obj)) = insert k (set (map fst obj))"
  by (induction obj) force+

lemma distinct_insertIndexKey:
  "distinct (map fst obj) \<Longrightarrow> k \<notin> set (map fst obj) \<Longrightarrow> distinct (map fst (insertIndexKey k v obj))"
proof (induction obj)
  case Nil
  then show ?case by simp
next
  case (Cons p obj)
  obtain k' v' where p: "p = (k', v')" by (cases p)
  from Cons.prems have "k' \<notin> set (map fst (insertIndexKey k v obj))"
    unfolding set_fst_insertIndexKey by (auto simp: p)
  with Cons show ?case by (auto simp: p)
qed

lemma distinct_addProperty:
  "distinct (map fst obj) \<Longrightarrow> \<not> hasOwnProperty k obj \<Longrightarrow> distinct (map fst (addProperty k v obj))"
  by (simp add: addProperty_def hasOwnProperty_def distinct_insertIndexKey)

lemma distinct_defineProperty:
  "distinct (map fst obj) \<Longrightarrow> distinct (map fst (defineProperty k v obj))"
  by (simp add: defineProperty_def fst_replaceValue distinct_addProperty)

lemma distinct_assignProperty:
  "distinct (map fst obj) \<Longrightarrow> distinct (map fst (assignProperty k v obj))"
  by (simp add: assignProperty_def fst_replaceValue distinct_addProperty)

lemma distinct_deleteProperty:
  "distinct (map fst obj) \<Longrightarrow> distinct (map fst (deleteProperty k obj))"
  by (simp add: deleteProperty_def distinct_map_filter)

lemma distinct_foldl_defineProperty:
  "distinct (map fst acc) \<Longrightarrow>
   distinct (map fst (foldl (\<lambda>acc attr. defineProperty (Name attr) (Value attr) acc) acc xs))"
  by (induction xs arbitrary: acc) (simp_all add: distinct_defineProperty)

lemma distinct_appendOne: "distinct (map fst obj) \<Longrightarrow> distinct (map fst (appendOne obj a))"
  by (simp add: appendOne_def distinct_assignProperty distinct_deleteProperty)

lemma distinct_foldl_appendOne:
  "distinct (map fst obj) \<Longrightarrow> distinct (map fst (foldl appendOne obj xs))"
  by (induction xs arbitrary: obj) (simp_all add: distinct_appendOne)

lemma distinct_attributesToRecord: "distinct (map fst (attributesToRecord attributes))"
  by (simp add: attributesToRecord_def distinct_foldl_defineProperty)

lemma Name_attributesFromRecord: "map Name (attributesFromRecord obj) = map fst obj"
  by (induction obj) (auto simp: attributesFromRecord_def)

lemma distinct_attributesAppend: "distinct (map Name (attributesAppend attributes toAppend))"
  by (simp add: attributesAppend_def Name_attributesFromRecord distinct_foldl_appendOne
      distinct_attributesToRecord)

lemma attributesFromRecord_replaceValue:
  "attributesFromRecord (replaceValue (Name a) (Value a) obj) =
     map (\<lambda>x. if Name x = Name a then a else x) (attributesFromRecord obj)"
  by (induction obj) (auto simp: attributesFromRecord_def replaceValue_def)

lemma attributesFromRecord_deleteProperty:
  "attributesFromRecord (deleteProperty k obj) =
     filter (\<lambda>x. Name x \<noteq> k) (attributesFromRecord obj)"
  by (induction obj) (auto simp: attributesFromRecord_def deleteProperty_def)

lemma attributesFromRecord_snoc:
  "attributesFromRecord (obj @ [(Name a, Value a)]) = attributesFromRecord obj @ [a]"
  by (simp add: attributesFromRecord_def)

lemma attributesFromRecord_appendOne:
  assumes "plainName (Name a)"
  shows "attributesFromRecord (appendOne obj a) =
     (let r = attributesFromRecord obj in
      if truthy (Value a)
      then (if Name a \<in> set (map Name r) then map (\<lambda>x. if Name x = Name a then a else x) r
            else r @ [a])
      else filter (\<lambda>x. Name x \<noteq> Name a) r)"
  using assms
  by (simp add: appendOne_def assignProperty_def addProperty_def plainName_def hasOwnProperty_def
      Name_attributesFromRecord attributesFromRecord_replaceValue
      attributesFromRecord_deleteProperty attributesFromRecord_snoc Let_def)

lemma foldl_defineProperty_plain:
  assumes "list_all (\<lambda>x. \<not> isArrayIndex (Name x)) xs" "distinct (map Name xs)"
    "set (map fst acc) \<inter> set (map Name xs) = {}"
  shows "foldl (\<lambda>acc attr. defineProperty (Name attr) (Value attr) acc) acc xs
           = acc @ map (\<lambda>x. (Name x, Value x)) xs"
  using assms
  by (induction xs arbitrary: acc)
     (auto simp: defineProperty_def addProperty_def hasOwnProperty_def)

lemma attributesAppend_nothing:
  assumes "list_all (\<lambda>x. \<not> isArrayIndex (Name x)) xs" "distinct (map Name xs)"
  shows "attributesAppend (Some xs) [] = xs"
proof -
  have "map (\<lambda>x. \<lparr>Name = Name x, Value = Value x\<rparr>) xs = xs"
    by (induction xs) simp_all
  with foldl_defineProperty_plain[OF assms, of "[]"] show ?thesis
    by (simp add: attributesAppend_def attributesToRecord_def orEmpty_def attributesFromRecord_def
        comp_def)
qed

lemma isArrayIndex_1: "isArrayIndex ''1''"
  by (simp add: isArrayIndex_def isDigit_def digitsValue_def)

lemma plainName_examples:
  "plainName ''b''" "plainName ''email''" "plainName ''name''" "plainName ''nickname''"
  by (simp_all add: plainName_def isArrayIndex_def isDigit_def)

lemma foldl_defineProperty_pairs:
  assumes "list_all (\<lambda>p. \<not> isArrayIndex (fst p)) kvs" "distinct (map fst kvs)"
    "set (map fst acc) \<inter> set (map fst kvs) = {}"
  shows "foldl (\<lambda>obj (k, v). defineProperty k v obj) acc kvs = acc @ kvs"
  using assms
  by (induction kvs arbitrary: acc)
     (auto simp: defineProperty_def addProperty_def hasOwnProperty_def)

lemma ownEntries_plain:
  assumes "list_all (\<lambda>p. \<not> isArrayIndex (fst p)) kvs" "distinct (map fst kvs)"
  shows "ownEntries kvs = kvs"
  using foldl_defineProperty_pairs[OF assms, of "[]"] by (simp add: ownEntries_def)

subsection \<open>The data store\<close>











subsection \<open>Holders of a refresh token\<close>








subsection \<open>The sample pool\<close>

lemma Object_values_sample: "Object_values sampleUsers = [alice, bob, carol, dave]"
proof -
  have "ownEntries sampleUsers = sampleUsers"
    by (rule ownEntries_plain) (simp_all add: sampleUsers_def isArrayIndex_def isDigit_def)
  then show ?thesis by (simp add: Object_values_def sampleUsers_def)
qed


lemma getUserByRefreshToken_sample:
  "getUserByRefreshToken (Users sampleState) [] = None"
  "getUserByRefreshToken (Users sampleState) ''t9'' = None"
  "getUserByRefreshToken (Users sampleState) ''t1'' = Some alice"
  by (simp_all add: sampleState_def getUserByRefreshToken_def listUsers_def Object_values_sample
      holdsRefreshToken_def alice_def bob_def carol_def dave_def)







lemma refresh_sample:
  "getUserPoolForClientId sampleServices (ClientId (refreshRequest token)) = Inr samplePool"
  by (simp add: sampleServices_def refreshRequest_def)

subsection \<open>InitiateAuth: the password flow up to the password check\<close>




subsection \<open>InitiateAuth: the MFA decision\<close>





subsection \<open>InitiateAuth: the refresh flow and the other flows\<close>

text \<open>
  C3, as stated, fails on a refresh token that is present but empty: no user holds it, and
  the flow fails with InvalidParameterError, not with NotAuthorizedError.
\<close>

theorem C3_counterexample:
  "AuthParameters (refreshRequest (Some []))
       = Some \<lparr>USERNAME = [], PASSWORD = None, REFRESH_TOKEN = Some []\<rparr>
   \<and> getUserByRefreshToken (Users sampleState) [] = None
   \<and> InitiateAuth sampleServices (refreshRequest (Some [])) sampleState
       = (Inl (InvalidParameterError ''AuthParameters REFRESH_TOKEN is required''), sampleState)
   \<and> InitiateAuth sampleServices (refreshRequest (Some [])) sampleState
       \<noteq> (Inl NotAuthorizedError, sampleState)"
  by (simp add: getUserByRefreshToken_sample)
     (simp add: InitiateAuth_def refreshTokenAuthFlow_def refreshRequest_def sampleServices_def)

text \<open>
  C3, amended. For every InitiateAuth request whose client id resolves to a pool and
  whose AuthFlow is \<^verbatim>\<open>REFRESH_TOKEN\<close> or \<^verbatim>\<open>REFRESH_TOKEN_AUTH\<close>: if AuthParameters is absent,
  or \<^verbatim>\<open>REFRESH_TOKEN\<close> is absent or empty, the flow fails with InvalidParameterError; if
  \<^verbatim>\<open>REFRESH_TOKEN\<close> is a non-empty string that no user of the pool holds, it fails with
  NotAuthorizedError; otherwise, the generator succeeding, it returns an
  AuthenticationResult with AccessToken and IdToken only, its RefreshToken undefined. In
  every case the users are left as they were. Any AuthFlow other than
  \<^verbatim>\<open>USER_PASSWORD_AUTH\<close>, \<^verbatim>\<open>REFRESH_TOKEN\<close> and \<^verbatim>\<open>REFRESH_TOKEN_AUTH\<close> fails with
  UnsupportedError.
\<close>

theorem C3_refreshTokenAuthFlow:
  assumes "getUserPoolForClientId services (ClientId req) = Inr config"
  shows
    "(AuthFlow req = ''REFRESH_TOKEN'' \<or> AuthFlow req = ''REFRESH_TOKEN_AUTH'' \<longrightarrow>
        (AuthParameters req = None \<longrightarrow>
           InitiateAuth services req s =
             (Inl (InvalidParameterError ''Missing required parameter authParameters''), s))
      \<and> (\<forall>ap. AuthParameters req = Some ap \<and> \<not> truthy (REFRESH_TOKEN ap) \<longrightarrow>
            InitiateAuth services req s =
              (Inl (InvalidParameterError ''AuthParameters REFRESH_TOKEN is required''), s))
      \<and> (\<forall>ap t. AuthParameters req = Some ap \<and> REFRESH_TOKEN ap = Some t \<and> t \<noteq> []
            \<and> getUserByRefreshToken (Users s) t = None \<longrightarrow>
            InitiateAuth services req s = (Inl NotAuthorizedError, s))
      \<and> (\<forall>ap t u issued.
            AuthParameters req = Some ap \<and> REFRESH_TOKEN ap = Some t \<and> t \<noteq> []
            \<and> getUserByRefreshToken (Users s) t = Some u
            \<and> generate services
                 \<lparr>gen_user = u, gen_clientId = ClientId req, gen_userPoolId = PoolId config,
                  gen_clientMetadata = None, gen_source = ''RefreshTokens''\<rparr> = Inr issued
            \<longrightarrow>
            InitiateAuth services req s =
              (Inr \<lparr>ChallengeName = None, Session = None, ChallengeParameters = None,
                    AuthenticationResult =
                      Some \<lparr>AccessToken = Some (IssuedAccessToken issued), ExpiresIn = None,
                            TokenType = None, RefreshToken = None,
                            IdToken = Some (IssuedIdToken issued),
                            NewDeviceMetadata = None\<rparr>\<rparr>,
               s\<lparr>calls := calls s @
                  [GenerateCall
                     \<lparr>gen_user = u, gen_clientId = ClientId req, gen_userPoolId = PoolId config,
                      gen_clientMetadata = None, gen_source = ''RefreshTokens''\<rparr>]\<rparr>))
      \<and> Users (snd (InitiateAuth services req s)) = Users s)
   \<and> (AuthFlow req \<noteq> ''USER_PASSWORD_AUTH'' \<and> AuthFlow req \<noteq> ''REFRESH_TOKEN''
        \<and> AuthFlow req \<noteq> ''REFRESH_TOKEN_AUTH'' \<longrightarrow>
        InitiateAuth services req s =
          (Inl (UnsupportedError (''InitAuth with AuthFlow='' @ AuthFlow req)), s))"
proof (intro conjI impI allI)
  assume "AuthFlow req \<noteq> ''USER_PASSWORD_AUTH'' \<and> AuthFlow req \<noteq> ''REFRESH_TOKEN''
        \<and> AuthFlow req \<noteq> ''REFRESH_TOKEN_AUTH''"
  then show "InitiateAuth services req s =
          (Inl (UnsupportedError (''InitAuth with AuthFlow='' @ AuthFlow req)), s)"
    using assms by (simp add: InitiateAuth_def)
next
  assume fl: "AuthFlow req = ''REFRESH_TOKEN'' \<or> AuthFlow req = ''REFRESH_TOKEN_AUTH''"
  then have eq: "InitiateAuth services req s = refreshTokenAuthFlow services req s"
    using assms by (auto simp: InitiateAuth_def)
  show "InitiateAuth services req s =
             (Inl (InvalidParameterError ''Missing required parameter authParameters''), s)"
    if "AuthParameters req = None"
    using that by (simp add: eq refreshTokenAuthFlow_def)
  show "InitiateAuth services req s =
              (Inl (InvalidParameterError ''AuthParameters REFRESH_TOKEN is required''), s)"
    if "AuthParameters req = Some ap \<and> \<not> truthy (REFRESH_TOKEN ap)" for ap
    using that by (auto simp: eq refreshTokenAuthFlow_def truthy_def split: option.splits)
  show "InitiateAuth services req s = (Inl NotAuthorizedError, s)"
    if "AuthParameters req = Some ap \<and> REFRESH_TOKEN ap = Some t \<and> t \<noteq> []
            \<and> getUserByRefreshToken (Users s) t = None" for ap t
    using that assms by (simp add: eq refreshTokenAuthFlow_def)
  show "InitiateAuth services req s =
              (Inr \<lparr>ChallengeName = None, Session = None, ChallengeParameters = None,
                    AuthenticationResult =
                      Some \<lparr>AccessToken = Some (IssuedAccessToken issued), ExpiresIn = None,
                            TokenType = None, RefreshToken = None,
                            IdToken = Some (IssuedIdToken issued),
                            NewDeviceMetadata = None\<rparr>\<rparr>,
               s\<lparr>calls := calls s @
                  [GenerateCall
                     \<lparr>gen_user = u, gen_clientId = ClientId req, gen_userPoolId = PoolId config,
                      gen_clientMetadata = None, gen_source = ''RefreshTokens''\<rparr>]\<rparr>)"
    if "AuthParameters req = Some ap \<and> REFRESH_TOKEN ap = Some t \<and> t \<noteq> []
            \<and> getUserByRefreshToken (Users s) t = Some u
            \<and> generate services
                 \<lparr>gen_user = u, gen_clientId = ClientId req, gen_userPoolId = PoolId config,
                  gen_clientMetadata = None, gen_source = ''RefreshTokens''\<rparr> = Inr issued"
    for ap t u issued
    using that assms by (simp add: eq refreshTokenAuthFlow_def Let_def)
  show "Users (snd (InitiateAuth services req s)) = Users s"
    using assms
    by (simp add: eq refreshTokenAuthFlow_def Let_def split: option.splits sum.splits)
qed

text \<open>
  The theorem at four requests on the sample pool: no token, a token nobody holds, the
  token of alice, and the flow \<^verbatim>\<open>CUSTOM_AUTH\<close>.
\<close>

theorem C3_refreshTokenAuthFlow_witness:
  "InitiateAuth sampleServices (refreshRequest None) sampleState
     = (Inl (InvalidParameterError ''AuthParameters REFRESH_TOKEN is required''), sampleState)
   \<and> InitiateAuth sampleServices (refreshRequest (Some ''t9'')) sampleState
     = (Inl NotAuthorizedError, sampleState)
   \<and> InitiateAuth sampleServices (refreshRequest (Some ''t1'')) sampleState
     = (Inr \<lparr>ChallengeName = None, Session = None, ChallengeParameters = None,
             AuthenticationResult =
               Some \<lparr>AccessToken = Some ''access-1'', ExpiresIn = None, TokenType = None,
                     RefreshToken = None, IdToken = Some ''id-1'',
                     NewDeviceMetadata = None\<rparr>\<rparr>,
        sampleState\<lparr>calls :=
          [GenerateCall \<lparr>gen_user = alice, gen_clientId = ''client-1'',
             gen_userPoolId = ''local_1'', gen_clientMetadata = None,
             gen_source = ''RefreshTokens''\<rparr>]\<rparr>)
   \<and> InitiateAuth sampleServices
        ((refreshRequest (Some ''t1''))\<lparr>AuthFlow := ''CUSTOM_AUTH''\<rparr>) sampleState
     = (Inl (UnsupportedError ''InitAuth with AuthFlow=CUSTOM_AUTH''), sampleState)"
proof -
  note find = getUserByRefreshToken_sample(2,3)
  have rq: "AuthFlow (refreshRequest token) = ''REFRESH_TOKEN_AUTH''"
    "AuthParameters (refreshRequest token)
       = Some \<lparr>USERNAME = [], PASSWORD = None, REFRESH_TOKEN = token\<rparr>"
    "ClientId (refreshRequest token) = ''client-1''" for token
    by (simp_all add: refreshRequest_def)
  have svc: "\<And>args. generate sampleServices args = Inr \<lparr>IssuedAccessToken = ''access-1'',
        IssuedIdToken = ''id-1'', IssuedRefreshToken = ''refresh-1''\<rparr>"
    "PoolId samplePool = ''local_1''" "calls sampleState = []"
    by (simp_all add: sampleServices_def samplePool_def sampleState_def)
  have other: "getUserPoolForClientId sampleServices
      (ClientId ((refreshRequest (Some ''t1''))\<lparr>AuthFlow := ''CUSTOM_AUTH''\<rparr>)) = Inr samplePool"
    by (simp add: sampleServices_def refreshRequest_def)
  show ?thesis
    using
      C3_refreshTokenAuthFlow[OF refresh_sample, of None sampleState]
      C3_refreshTokenAuthFlow[OF refresh_sample, of "Some ''t9''" sampleState]
      C3_refreshTokenAuthFlow[OF refresh_sample, of "Some ''t1''" sampleState]
      C3_refreshTokenAuthFlow[OF other, of sampleState]
    by (simp add: rq find svc truthy_def)
qed

subsection \<open>getUserByUsername\<close>





subsection \<open>validatePermittedAttributeChanges\<close>

lemma checkAgainstSchema_None_iff:
  "checkAgainstSchema req schema = None \<longleftrightarrow> firstEntryMutable req schema"
  by (induction req) (auto simp: firstEntryMutable_def split: option.splits)

lemma checkAgainstSchema_Some:
  "checkAgainstSchema req schema = Some e \<Longrightarrow> isInvalidParameterError e"
  by (induction req) (auto simp: isInvalidParameterError_def split: option.splits if_splits)

lemma find_Some_set: "find P xs = Some x \<Longrightarrow> x \<in> set xs \<and> P x"
  by (induction xs) (auto split: if_splits)

lemma firstEntryMutable_spec_permitted:
  "firstEntryMutable req schema \<Longrightarrow> spec_permitted req schema"
proof -
  assume fm: "firstEntryMutable req schema"
  have "\<exists>s\<in>set schema. SchemaName s = Some (Name a) \<and> Mutable s = Some True"
    if "a \<in> set req" for a
  proof -
    from fm that obtain s where "find (\<lambda>s. SchemaName s = Some (Name a)) schema = Some s"
      and "Mutable s = Some True"
      by (auto simp: firstEntryMutable_def list_all_iff split: option.splits)
    then show ?thesis using find_Some_set by fastforce
  qed
  then show ?thesis by (simp add: spec_permitted_def list_all_iff list_ex_iff)
qed

lemma find_distinct_name:
  assumes "distinct (map SchemaName schema)" "s \<in> set schema" "SchemaName s = Some n"
  shows "find (\<lambda>x. SchemaName x = Some n) schema = Some s"
  using assms
proof (induction schema)
  case Nil
  then show ?case by simp
next
  case (Cons x xs)
  then show ?case by (auto simp: image_iff)
qed

lemma spec_permitted_firstEntryMutable:
  "distinct (map SchemaName schema) \<Longrightarrow> spec_permitted req schema \<Longrightarrow> firstEntryMutable req schema"
  unfolding firstEntryMutable_def spec_permitted_def list_all_iff list_ex_iff
  by (auto simp: find_distinct_name)

text \<open>
  C5, as stated, fails on a schema with two entries of one Name, the first immutable and
  the second mutable: the requested attribute has a mutable schema entry of its Name, no
  verification flag is involved, and the request is rejected.
\<close>

theorem C5_counterexample:
  "spec_permitted [\<lparr>Name = ''email'', Value = Some ''a@x''\<rparr>]
       [\<lparr>SchemaName = Some ''email'', Mutable = Some False\<rparr>,
        \<lparr>SchemaName = Some ''email'', Mutable = Some True\<rparr>]
   \<and> \<not> verifiedWithoutContact [\<lparr>Name = ''email'', Value = Some ''a@x''\<rparr>]
   \<and> validatePermittedAttributeChanges [\<lparr>Name = ''email'', Value = Some ''a@x''\<rparr>]
       [\<lparr>SchemaName = Some ''email'', Mutable = Some False\<rparr>,
        \<lparr>SchemaName = Some ''email'', Mutable = Some True\<rparr>]
     = Inl (InvalidParameterError
         ''user.email: Attribute cannot be updated. (changing an immutable attribute)'')"
  by (simp add: spec_permitted_def verifiedWithoutContact_def attributesInclude_def orEmpty_def
      validatePermittedAttributeChanges_def)

text \<open>
  C5, amended. For every request and schema, \<open>validatePermittedAttributeChanges\<close>
  returns the request unchanged if and only if, for every requested attribute, the first
  schema entry of the same Name exists and is Mutable, and the request holds neither
  \<^verbatim>\<open>email_verified\<close> without \<^verbatim>\<open>email\<close> nor \<^verbatim>\<open>phone_number_verified\<close> without
  \<^verbatim>\<open>phone_number\<close>; in every other case it throws InvalidParameterError. Every request
  that passes has, for each of its attributes, a Mutable schema entry of the same Name;
  and where no two schema entries share a Name, the condition on the first entry is that
  condition.
\<close>

theorem C5_validate:
  "(validatePermittedAttributeChanges req schema = Inr req
      \<longleftrightarrow> firstEntryMutable req schema \<and> \<not> verifiedWithoutContact req)
   \<and> (case validatePermittedAttributeChanges req schema of
         Inr r \<Rightarrow> r = req \<and> spec_permitted req schema
       | Inl e \<Rightarrow> isInvalidParameterError e)
   \<and> (distinct (map SchemaName schema) \<longrightarrow>
         firstEntryMutable req schema = spec_permitted req schema)"
proof (intro conjI impI)
  show "validatePermittedAttributeChanges req schema = Inr req
      \<longleftrightarrow> firstEntryMutable req schema \<and> \<not> verifiedWithoutContact req"
    using checkAgainstSchema_None_iff[of req schema]
    by (auto simp: validatePermittedAttributeChanges_def verifiedWithoutContact_def split: option.splits)
  show "case validatePermittedAttributeChanges req schema of
         Inr r \<Rightarrow> r = req \<and> spec_permitted req schema
       | Inl e \<Rightarrow> isInvalidParameterError e"
    using checkAgainstSchema_None_iff[of req schema] checkAgainstSchema_Some[of req schema]
      firstEntryMutable_spec_permitted[of req schema]
    by (auto simp: validatePermittedAttributeChanges_def isInvalidParameterError_def
        split: option.splits sum.splits if_splits)
  assume "distinct (map SchemaName schema)"
  then show "firstEntryMutable req schema = spec_permitted req schema"
    using firstEntryMutable_spec_permitted spec_permitted_firstEntryMutable by blast
qed

text \<open>
  The theorem at the schema of the sample pool: a request that passes, a request for the
  immutable \<^verbatim>\<open>sub\<close>, and \<^verbatim>\<open>email_verified\<close> without \<^verbatim>\<open>email\<close>.
\<close>

theorem C5_validate_witness:
  "validatePermittedAttributeChanges
       [\<lparr>Name = ''email'', Value = Some ''a@x''\<rparr>, \<lparr>Name = ''email_verified'', Value = Some ''true''\<rparr>]
       (orEmpty (SchemaAttributes samplePool))
     = Inr [\<lparr>Name = ''email'', Value = Some ''a@x''\<rparr>, \<lparr>Name = ''email_verified'', Value = Some ''true''\<rparr>]
   \<and> validatePermittedAttributeChanges [\<lparr>Name = ''sub'', Value = Some ''s''\<rparr>]
       (orEmpty (SchemaAttributes samplePool))
     \<noteq> Inr [\<lparr>Name = ''sub'', Value = Some ''s''\<rparr>]
   \<and> validatePermittedAttributeChanges [\<lparr>Name = ''email_verified'', Value = Some ''true''\<rparr>]
       (orEmpty (SchemaAttributes samplePool))
     \<noteq> Inr [\<lparr>Name = ''email_verified'', Value = Some ''true''\<rparr>]
   \<and> distinct (map SchemaName (orEmpty (SchemaAttributes samplePool)))
   \<and> spec_permitted [\<lparr>Name = ''email'', Value = Some ''a@x''\<rparr>] (orEmpty (SchemaAttributes samplePool))"
  using
    C5_validate[of "[\<lparr>Name = ''email'', Value = Some ''a@x''\<rparr>, \<lparr>Name = ''email_verified'', Value = Some ''true''\<rparr>]"
      "orEmpty (SchemaAttributes samplePool)"]
    C5_validate[of "[\<lparr>Name = ''sub'', Value = Some ''s''\<rparr>]" "orEmpty (SchemaAttributes samplePool)"]
    C5_validate[of "[\<lparr>Name = ''email_verified'', Value = Some ''true''\<rparr>]" "orEmpty (SchemaAttributes samplePool)"]
    C5_validate[of "[\<lparr>Name = ''email'', Value = Some ''a@x''\<rparr>]" "orEmpty (SchemaAttributes samplePool)"]
  by (simp add: firstEntryMutable_def verifiedWithoutContact_def attributesInclude_def orEmpty_def
      samplePool_def)

subsection \<open>The Lambda service\<close>

text \<open>
  C6, as stated, fails on the payload \<^verbatim>\<open>null\<close>, the payload of a function that returns
  nothing: the status is 200 and the payload parses, yet reading the field \<^verbatim>\<open>response\<close>
  of null throws inside the same \<^verbatim>\<open>try\<close>, and InvalidLambdaResponseError is raised.
\<close>

theorem C6_counterexample:
  "functionConfig sampleLambda PostAuthentication = Some ''null-fn''
   \<and> lambdaClient_invoke sampleLambda ''null-fn'' ''RequestResponse''
        (serialize (createLambdaEvent (awsSdkVersion sampleLambda)
           (sampleEvent PostAuthentication_Authentication)))
       = Inr \<lparr>StatusCode = Some 200, FunctionError = None, Payload = Some ''null''\<rparr>
   \<and> JSON_parse sampleLambda ''null'' = Some JNull
   \<and> LambdaService_invoke sampleLambda PostAuthentication
        (sampleEvent PostAuthentication_Authentication)
       = Inl InvalidLambdaResponseError"
  by (simp add: LambdaService_invoke_def sampleLambda_def sampleParse_def responseField_def)

text \<open>
  C6, amended. For every invocation of a trigger whose function is configured: a
  transport failure of the client raises UnexpectedLambdaExceptionError; a status other
  than 200 raises UserLambdaValidationError with the FunctionError of the response; with
  status 200, a payload that is missing, that does not parse, or that parses to null
  raises InvalidLambdaResponseError, a payload that parses to an object yields the field
  \<^verbatim>\<open>response\<close> of the object (undefined when it has none), and a payload that parses to a
  boolean, a number, a string or an array yields undefined.
\<close>

theorem C6_invoke:
  assumes "functionConfig service trigger = Some functionName" and "functionName \<noteq> []"
  shows
    "(\<forall>ex. lambdaClient_invoke service functionName ''RequestResponse''
             (serialize (createLambdaEvent (awsSdkVersion service) ev)) = Inl ex \<longrightarrow>
        LambdaService_invoke service trigger ev = Inl UnexpectedLambdaExceptionError)
   \<and> (\<forall>result.
        lambdaClient_invoke service functionName ''RequestResponse''
          (serialize (createLambdaEvent (awsSdkVersion service) ev)) = Inr result \<longrightarrow>
        (StatusCode result \<noteq> Some 200 \<longrightarrow>
           LambdaService_invoke service trigger ev
             = Inl (UserLambdaValidationError (FunctionError result)))
      \<and> (StatusCode result = Some 200 \<longrightarrow>
           (Payload result = None \<longrightarrow>
              LambdaService_invoke service trigger ev = Inl InvalidLambdaResponseError)
         \<and> (\<forall>payload. Payload result = Some payload \<longrightarrow>
              (JSON_parse service payload = None \<or> JSON_parse service payload = Some JNull \<longrightarrow>
                 LambdaService_invoke service trigger ev = Inl InvalidLambdaResponseError)
            \<and> (\<forall>props. JSON_parse service payload = Some (JObj props) \<longrightarrow>
                 LambdaService_invoke service trigger ev
                   = Inr (case map_of props ''response'' of
                            None \<Rightarrow> JUndefined | Some v \<Rightarrow> v))
            \<and> (\<forall>b n str xs.
                 JSON_parse service payload \<in> {Some (JBool b), Some (JNum n), Some (JStr str),
                                               Some (JArr xs)} \<longrightarrow>
                 LambdaService_invoke service trigger ev = Inr JUndefined))))"
  using assms
  by (auto simp: LambdaService_invoke_def responseField_def Let_def)

text \<open>
  The theorem at the four functions of the sample service: an answer with a response, a
  transport failure, a text that is not JSON, and the status 500.
\<close>

theorem C6_invoke_witness:
  "LambdaService_invoke sampleLambda PreSignUp (sampleEvent PreSignUp_SignUp)
     = Inr (JObj [(''autoConfirmUser'', JBool True)])
   \<and> LambdaService_invoke sampleLambda PostConfirmation (sampleEvent PostConfirmation_ConfirmSignUp)
     = Inl UnexpectedLambdaExceptionError
   \<and> LambdaService_invoke sampleLambda CustomMessage (sampleEvent CustomMessage_SignUp)
     = Inl InvalidLambdaResponseError
   \<and> LambdaService_invoke sampleLambda UserMigration (sampleEvent UserMigration_Authentication)
     = Inl (UserLambdaValidationError (Some ''Unhandled''))"
proof -
  have cfg: "functionConfig sampleLambda PreSignUp = Some ''ok-fn''"
    "functionConfig sampleLambda PostConfirmation = Some ''down-fn''"
    "functionConfig sampleLambda CustomMessage = Some ''text-fn''"
    "functionConfig sampleLambda UserMigration = Some ''error-fn''"
    by (simp_all add: sampleLambda_def)
  have client: "lambdaClient_invoke sampleLambda ''ok-fn'' t p =
       Inr \<lparr>StatusCode = Some 200, FunctionError = None,
             Payload = Some ''{\"response\":{\"autoConfirmUser\":true}}''\<rparr>"
    "lambdaClient_invoke sampleLambda ''down-fn'' t p = Inl ''connect ECONNREFUSED''"
    "lambdaClient_invoke sampleLambda ''text-fn'' t p =
       Inr \<lparr>StatusCode = Some 200, FunctionError = None, Payload = Some ''oops''\<rparr>"
    "lambdaClient_invoke sampleLambda ''error-fn'' t p =
       Inr \<lparr>StatusCode = Some 500, FunctionError = Some ''Unhandled'', Payload = None\<rparr>" for t p
    by (simp_all add: sampleLambda_def)
  have parse: "JSON_parse sampleLambda ''{\"response\":{\"autoConfirmUser\":true}}''
       = Some (JObj [(''response'', JObj [(''autoConfirmUser'', JBool True)])])"
    "JSON_parse sampleLambda ''oops'' = None"
    by (simp_all add: sampleLambda_def sampleParse_def)
  show ?thesis
    using
      C6_invoke[OF cfg(1), of "sampleEvent PreSignUp_SignUp"]
      C6_invoke[OF cfg(2), of "sampleEvent PostConfirmation_ConfirmSignUp"]
      C6_invoke[OF cfg(3), of "sampleEvent CustomMessage_SignUp"]
      C6_invoke[OF cfg(4), of "sampleEvent UserMigration_Authentication"]
    by (simp add: client parse)
qed

subsection \<open>Administrative targets on a missing user\<close>




subsection \<open>storeRefreshToken\<close>




subsection \<open>attributesAppend\<close>

text \<open>
  C9, as stated, fails: the attribute set is a plain object, and a plain object lists a
  key that is an array index before every other key. Appending the new name \<^verbatim>\<open>1\<close> to
  a list that holds \<^verbatim>\<open>b\<close> puts the new entry first, not at the end.
\<close>

theorem C9_counterexample:
  "attributesAppend (Some [\<lparr>Name = ''b'', Value = Some ''x''\<rparr>])
       [\<lparr>Name = ''1'', Value = Some ''y''\<rparr>]
     = [\<lparr>Name = ''1'', Value = Some ''y''\<rparr>, \<lparr>Name = ''b'', Value = Some ''x''\<rparr>]
   \<and> attributesAppend (Some [\<lparr>Name = ''b'', Value = Some ''x''\<rparr>])
       [\<lparr>Name = ''1'', Value = Some ''y''\<rparr>]
     \<noteq> [\<lparr>Name = ''b'', Value = Some ''x''\<rparr>] @ [\<lparr>Name = ''1'', Value = Some ''y''\<rparr>]"
  by (simp add: attributesAppend_def attributesToRecord_def attributesFromRecord_def appendOne_def
      assignProperty_def defineProperty_def addProperty_def hasOwnProperty_def orEmpty_def truthy_def
      isArrayIndex_1 plainName_examples[unfolded plainName_def])

text \<open>
  C9, amended. For every attribute list and every sequence of attributes to append,
  \<open>attributesAppend\<close> returns a list with at most one entry per attribute Name. A list
  whose Names are pairwise distinct and plain (neither an array index nor \<^verbatim>\<open>__proto__\<close>)
  comes back unchanged when nothing is appended. Appending one more attribute \<open>a\<close> with a
  plain Name acts on the result \<open>r\<close> of the appends before it as follows: when the Value
  of \<open>a\<close> is a non-empty string and the Name occurs in \<open>r\<close>, that entry is replaced by
  \<open>a\<close> where it stands; when the Value is a non-empty string and the Name is new, \<open>a\<close> is
  added at the end; when the Value is undefined or empty, the entry of that Name is
  removed.
\<close>

theorem C9_attributesAppend:
  "distinct (map Name (attributesAppend attributes toAppend)) \<and>
   (list_all (\<lambda>x. plainName (Name x)) xs \<and> distinct (map Name xs) \<longrightarrow>
      attributesAppend (Some xs) [] = xs) \<and>
   (plainName (Name a) \<longrightarrow>
      attributesAppend attributes (toAppend @ [a]) =
        (let r = attributesAppend attributes toAppend in
         if truthy (Value a)
         then (if Name a \<in> set (map Name r) then map (\<lambda>x. if Name x = Name a then a else x) r
               else r @ [a])
         else filter (\<lambda>x. Name x \<noteq> Name a) r))"
proof (intro conjI impI)
  show "distinct (map Name (attributesAppend attributes toAppend))"
    by (rule distinct_attributesAppend)
next
  assume "list_all (\<lambda>x. plainName (Name x)) xs \<and> distinct (map Name xs)"
  then have "list_all (\<lambda>x. \<not> isArrayIndex (Name x)) xs" "distinct (map Name xs)"
    by (auto simp: plainName_def list_all_iff)
  then show "attributesAppend (Some xs) [] = xs" by (rule attributesAppend_nothing)
next
  assume "plainName (Name a)"
  then show "attributesAppend attributes (toAppend @ [a]) =
        (let r = attributesAppend attributes toAppend in
         if truthy (Value a)
         then (if Name a \<in> set (map Name r) then map (\<lambda>x. if Name x = Name a then a else x) r
               else r @ [a])
         else filter (\<lambda>x. Name x \<noteq> Name a) r)"
    using attributesFromRecord_appendOne[of a "foldl appendOne (attributesToRecord attributes) toAppend"]
    by (simp add: attributesAppend_def)
qed

text \<open>
  The theorem at a list holding \<^verbatim>\<open>email\<close> and \<^verbatim>\<open>name\<close>: a new value for \<^verbatim>\<open>email\<close>
  replaces the entry in first place, \<^verbatim>\<open>nickname\<close> goes to the end, and an empty
  \<^verbatim>\<open>name\<close> removes that entry.
\<close>

theorem C9_attributesAppend_witness:
  "plainName ''email'' \<and> plainName ''nickname'' \<and> plainName ''name''
   \<and> attributesAppend (Some [\<lparr>Name = ''email'', Value = Some ''a@x''\<rparr>, \<lparr>Name = ''name'', Value = Some ''A''\<rparr>]) []
       = [\<lparr>Name = ''email'', Value = Some ''a@x''\<rparr>, \<lparr>Name = ''name'', Value = Some ''A''\<rparr>]
   \<and> attributesAppend (Some [\<lparr>Name = ''email'', Value = Some ''a@x''\<rparr>, \<lparr>Name = ''name'', Value = Some ''A''\<rparr>])
        ([] @ [\<lparr>Name = ''email'', Value = Some ''b@y''\<rparr>])
       = [\<lparr>Name = ''email'', Value = Some ''b@y''\<rparr>, \<lparr>Name = ''name'', Value = Some ''A''\<rparr>]
   \<and> attributesAppend (Some [\<lparr>Name = ''email'', Value = Some ''a@x''\<rparr>, \<lparr>Name = ''name'', Value = Some ''A''\<rparr>])
        ([] @ [\<lparr>Name = ''nickname'', Value = Some ''Al''\<rparr>])
       = [\<lparr>Name = ''email'', Value = Some ''a@x''\<rparr>, \<lparr>Name = ''name'', Value = Some ''A''\<rparr>,
          \<lparr>Name = ''nickname'', Value = Some ''Al''\<rparr>]
   \<and> attributesAppend (Some [\<lparr>Name = ''email'', Value = Some ''a@x''\<rparr>, \<lparr>Name = ''name'', Value = Some ''A''\<rparr>])
        ([] @ [\<lparr>Name = ''name'', Value = Some ''''\<rparr>])
       = [\<lparr>Name = ''email'', Value = Some ''a@x''\<rparr>]"
  using
    C9_attributesAppend[of "Some [\<lparr>Name = ''email'', Value = Some ''a@x''\<rparr>, \<lparr>Name = ''name'', Value = Some ''A''\<rparr>]"
      "[]" "[\<lparr>Name = ''email'', Value = Some ''a@x''\<rparr>, \<lparr>Name = ''name'', Value = Some ''A''\<rparr>]"
      "\<lparr>Name = ''email'', Value = Some ''b@y''\<rparr>"]
    C9_attributesAppend[of "Some [\<lparr>Name = ''email'', Value = Some ''a@x''\<rparr>, \<lparr>Name = ''name'', Value = Some ''A''\<rparr>]"
      "[]" "[]" "\<lparr>Name = ''nickname'', Value = Some ''Al''\<rparr>"]
    C9_attributesAppend[of "Some [\<lparr>Name = ''email'', Value = Some ''a@x''\<rparr>, \<lparr>Name = ''name'', Value = Some ''A''\<rparr>]"
      "[]" "[]" "\<lparr>Name = ''name'', Value = Some ''''\<rparr>"]
  by (simp add: plainName_examples truthy_def)

subsection \<open>DescribeUserPool\<close>

text \<open>
  C10. For every existing user pool, DescribeUserPool returns the stored configuration
  of the pool with both CreationDate and LastModifiedDate set to the time of the clock
  at the request, whatever dates are stored.
\<close>

theorem C10_DescribeUserPool:
  assumes "getUserPool services userPoolId = Inr (Some config)"
  shows "DescribeUserPool services userPoolId
      = Inr (config\<lparr>CreationDate := Some (clock_get services),
                     LastModifiedDate := Some (clock_get services)\<rparr>)"
  using assms by (simp add: DescribeUserPool_def Let_def)

text \<open>
  The theorem at the sample pool, whose stored dates are 5 and 7, with the clock at 42.
\<close>

theorem C10_DescribeUserPool_witness:
  "CreationDate samplePool = Some 5 \<and> LastModifiedDate samplePool = Some 7
   \<and> clock_get sampleServices = 42
   \<and> DescribeUserPool sampleServices ''local_1''
       = Inr \<lparr>PoolId = ''local_1'', PoolName = Some ''sample'',
              UsernameAttributes = Some [''email''], AutoVerifiedAttributes = None,
              MfaConfiguration = Some OPTIONAL,
              SchemaAttributes = Some [\<lparr>SchemaName = Some ''sub'', Mutable = Some False\<rparr>,
                              \<lparr>SchemaName = Some ''email'', Mutable = Some True\<rparr>,
                              \<lparr>SchemaName = Some ''email_verified'', Mutable = Some True\<rparr>],
              SmsVerificationMessage = None, CreationDate = Some 42,
              LastModifiedDate = Some 42\<rparr>"
proof -
  have pool: "getUserPool sampleServices ''local_1'' = Inr (Some samplePool)"
    by (simp add: sampleServices_def)
  have now: "clock_get sampleServices = 42" by (simp add: sampleServices_def)
  show ?thesis using C10_DescribeUserPool[OF pool] by (simp add: now samplePool_def)
qed

end
